theory Spec2Isabelle
  imports Complex_Main "HOL-Library.Sublist"
begin

section \<open>Texts and numbers\<close>

text \<open>
  A Python \<open>str\<close> is modelled as an Isabelle \<open>string\<close>, one \<open>char\<close> per code point. This
  covers the code points U+0000 to U+00FF, which contain every character of the pattern
  tables of the analyzer and the comparer (the accented letters are written by code:
  \<open>0xED\<close> is i-acute, \<open>0xF1\<close> is n-tilde, \<open>0xE1\<close> is a-acute).

  A Python \<open>float\<close> is modelled as an exact rational: no rounding, no overflow, no NaN.
\<close>

definition is_digit :: "char \<Rightarrow> bool" where
  \<comment> \<open>\<open>\d\<close> on a \<open>str\<close> pattern: the decimal digits; below U+0100 these are \<open>0\<close> to \<open>9\<close>.\<close>
  "is_digit c = (let n = (of_char c :: nat) in 48 \<le> n \<and> n \<le> 57)"

definition is_space :: "char \<Rightarrow> bool" where
  \<comment> \<open>\<open>\s\<close> and \<open>str.strip()\<close>: the whitespace code points below U+0100.\<close>
  "is_space c = (let n = (of_char c :: nat) in
     (9 \<le> n \<and> n \<le> 13) \<or> (28 \<le> n \<and> n \<le> 32) \<or> n = 133 \<or> n = 160)"

definition is_upper :: "char \<Rightarrow> bool" where
  \<comment> \<open>the cased upper-case letters below U+0100\<close>
  "is_upper c = (let n = (of_char c :: nat) in
     (65 \<le> n \<and> n \<le> 90) \<or> (192 \<le> n \<and> n \<le> 222 \<and> n \<noteq> 215))"

definition is_lower :: "char \<Rightarrow> bool" where
  \<comment> \<open>the cased lower-case letters below U+0100\<close>
  "is_lower c = (let n = (of_char c :: nat) in
     (97 \<le> n \<and> n \<le> 122) \<or> n = 170 \<or> n = 181 \<or> n = 186 \<or> (223 \<le> n \<and> n \<noteq> 247))"

definition is_word :: "char \<Rightarrow> bool" where
  \<comment> \<open>\<open>\w\<close> on a \<open>str\<close> pattern: alphanumeric or underscore\<close>
  "is_word c = (let n = (of_char c :: nat) in
     (48 \<le> n \<and> n \<le> 57) \<or> (65 \<le> n \<and> n \<le> 90) \<or> n = 95 \<or> (97 \<le> n \<and> n \<le> 122)
     \<or> n = 170 \<or> n = 178 \<or> n = 179 \<or> n = 181 \<or> n = 185 \<or> n = 186
     \<or> (188 \<le> n \<and> n \<le> 190) \<or> (192 \<le> n \<and> n \<noteq> 215 \<and> n \<noteq> 247))"

definition lower_char :: "char \<Rightarrow> char" where
  "lower_char c = (if is_upper c then char_of ((of_char c :: nat) + 32) else c)"

definition lower :: "string \<Rightarrow> string" where
  \<comment> \<open>\<open>str.lower()\<close>\<close>
  "lower s = map lower_char s"

definition strip :: "string \<Rightarrow> string" where
  \<comment> \<open>\<open>str.strip()\<close>\<close>
  "strip s = rev (dropWhile is_space (rev (dropWhile is_space s)))"

definition replace_char :: "char \<Rightarrow> string \<Rightarrow> string \<Rightarrow> string" where
  \<comment> \<open>\<open>s.replace(c, new)\<close> for a one-character \<open>c\<close>\<close>
  "replace_char c new s = concat (map (\<lambda>x. if x = c then new else [x]) s)"

fun contains :: "string \<Rightarrow> string \<Rightarrow> bool" where
  \<comment> \<open>\<open>sub in s\<close>\<close>
  "contains sub [] = (sub = [])"
| "contains sub (c # cs) = (prefix sub (c # cs) \<or> contains sub cs)"

definition digits_value :: "string \<Rightarrow> rat" where
  "digits_value ds = foldl (\<lambda>acc c. 10 * acc + of_nat ((of_char c :: nat) - 48)) 0 ds"

definition py_float :: "string \<Rightarrow> rat option" where
  \<comment> \<open>The builtin \<open>float(s)\<close> on plain decimal literals: surrounding whitespace, an optional
      sign, digits with an optional fraction. \<open>None\<close> is \<open>ValueError\<close>. The exponent,
      underscore, \<open>inf\<close> and \<open>nan\<close> spellings are outside this fragment; the general results
      below take the parser as a parameter and do not depend on it.\<close>
  "py_float s =
     (let u = strip s;
          neg = (u \<noteq> [] \<and> hd u = CHR ''-'');
          body = (if u \<noteq> [] \<and> (hd u = CHR ''-'' \<or> hd u = CHR ''+'') then tl u else u);
          ip = takeWhile is_digit body;
          rest = dropWhile is_digit body;
          sgn = (if neg then - 1 else 1 :: rat)
      in case rest of
           [] \<Rightarrow> if ip = [] then None else Some (sgn * digits_value ip)
         | c # fr \<Rightarrow>
             if c = CHR ''.'' \<and> list_all is_digit fr \<and> (ip \<noteq> [] \<or> fr \<noteq> [])
             then Some (sgn * (digits_value ip + digits_value fr / 10 ^ length fr))
             else None)"

definition round_half_even :: "rat \<Rightarrow> int" where
  "round_half_even q =
     (let f = \<lfloor>q\<rfloor>; d = q - of_int f
      in if d < 1 / 2 then f else if 1 / 2 < d then f + 1 else if even f then f else f + 1)"

definition round3 :: "rat \<Rightarrow> rat" where
  \<comment> \<open>\<open>round(x, 3)\<close>\<close>
  "round3 x = of_int (round_half_even (x * 1000)) / 1000"

section \<open>Regular expressions\<close>

text \<open>
  The fragment of Python's \<open>re\<close> that the pattern tables use, with the backtracking
  semantics of the library: alternation is ordered, repetition is greedy, and the first
  way to match in that order is the match. A matcher state is the character before the
  current position (for \<open>\b\<close>) and the text still to read; a matcher returns the states
  it can stop in, in the order backtracking tries them.
\<close>

datatype regex =
    Eps
  | Chr char
  | Digit
  | Space
  | Cls "char list"
  | WordB
  | Seq regex regex
  | Alt regex regex
  | Star regex

type_synonym mstate = "char option \<times> string"

definition at_boundary :: "mstate \<Rightarrow> bool" where
  "at_boundary st =
     ((case fst st of None \<Rightarrow> False | Some p \<Rightarrow> is_word p)
      \<noteq> (case snd st of [] \<Rightarrow> False | c # _ \<Rightarrow> is_word c))"

definition step_char :: "(char \<Rightarrow> bool) \<Rightarrow> mstate \<Rightarrow> mstate list" where
  "step_char P st = (case snd st of [] \<Rightarrow> [] | c # cs \<Rightarrow> if P c then [(Some c, cs)] else [])"

fun rmatch :: "bool \<Rightarrow> regex \<Rightarrow> mstate \<Rightarrow> mstate list" where
  "rmatch ic Eps st = [st]"
| "rmatch ic (Chr a) st =
     step_char (\<lambda>c. if ic then lower_char c = lower_char a else c = a) st"
| "rmatch ic Digit st = step_char is_digit st"
| "rmatch ic Space st = step_char is_space st"
| "rmatch ic (Cls as) st =
     step_char (\<lambda>c. if ic then lower_char c \<in> set (map lower_char as) else c \<in> set as) st"
| "rmatch ic WordB st = (if at_boundary st then [st] else [])"
| "rmatch ic (Seq r1 r2) st = concat (map (rmatch ic r2) (rmatch ic r1 st))"
| "rmatch ic (Alt r1 r2) st = rmatch ic r1 st @ rmatch ic r2 st"
| "rmatch ic (Star r) st =
     concat (map (rmatch ic (Star r))
               (filter (\<lambda>st'. length (snd st') < length (snd st)) (rmatch ic r st)))
     @ [st]"

definition Plus :: "regex \<Rightarrow> regex" where
  "Plus r = Seq r (Star r)"

definition Opt :: "regex \<Rightarrow> regex" where
  "Opt r = Alt r Eps"

fun Lit :: "string \<Rightarrow> regex" where
  "Lit [] = Eps"
| "Lit [c] = Chr c"
| "Lit (c # cs) = Seq (Chr c) (Lit cs)"

fun Alts :: "string list \<Rightarrow> regex" where
  "Alts [] = Cls []"
| "Alts [w] = Lit w"
| "Alts (w # ws) = Alt (Lit w) (Alts ws)"


text \<open>
  A pattern of the tables has the shape \<open>pre(grp)post\<close> with one capturing group; a match
  is the text of the group with the start and end offsets of the whole match.
\<close>

record pattern =
  pre :: regex
  grp :: regex
  post :: regex

record rematch =
  group1 :: string
  mstart :: nat
  mend :: nat

definition match_here :: "bool \<Rightarrow> pattern \<Rightarrow> mstate \<Rightarrow> (string \<times> mstate) option" where
  "match_here ic p st =
     (case concat (map (\<lambda>s1.
             concat (map (\<lambda>s2.
               map (\<lambda>s3. (take (length (snd s1) - length (snd s2)) (snd s1), s3))
                   (rmatch ic (post p) s2))
             (rmatch ic (grp p) s1)))
           (rmatch ic (pre p) st)) of
        [] \<Rightarrow> None
      | x # _ \<Rightarrow> Some x)"

function finditer_from :: "bool \<Rightarrow> pattern \<Rightarrow> nat \<Rightarrow> mstate \<Rightarrow> rematch list" where
  "finditer_from ic p pos st =
     (case match_here ic p st of
        None \<Rightarrow> (case snd st of [] \<Rightarrow> [] | c # cs \<Rightarrow> finditer_from ic p (pos + 1) (Some c, cs))
      | Some (g, st') \<Rightarrow>
          (let n = length (snd st) - length (snd st');
               m = \<lparr>group1 = g, mstart = pos, mend = pos + n\<rparr>
           in if n = 0
              then (case snd st of [] \<Rightarrow> [m]
                    | c # cs \<Rightarrow> m # finditer_from ic p (pos + 1) (Some c, cs))
              else m # finditer_from ic p (pos + n) st'))"
  by pat_completeness auto
termination
  by (relation "measure (\<lambda>(ic, p, pos, st). length (snd st))") auto

definition finditer :: "bool \<Rightarrow> pattern \<Rightarrow> string \<Rightarrow> rematch list" where
  \<comment> \<open>\<open>re.finditer(pattern, content, flags)\<close>: the non-overlapping matches, left to right\<close>
  "finditer ic p content = finditer_from ic p 0 (None, content)"

section \<open>The contradiction analyzer\<close>

definition plazo_anos :: string where
  "plazo_anos = ''plazo_a'' @ [CHR 0xF1] @ ''os''"

definition amount :: regex where
  \<comment> \<open>\<open>\d+(?:,\d{3})*(?:\.\d{2})?\<close>\<close>
  "amount = Seq (Plus Digit)
              (Seq (Star (Seq (Chr CHR '','') (Seq Digit (Seq Digit Digit))))
                   (Opt (Seq (Chr CHR ''.'') (Seq Digit Digit))))"

definition pat_plazo_dias :: pattern where
  \<comment> \<open>\<open>(\d+)\s*d\xedas?\<close>\<close>
  "pat_plazo_dias =
     \<lparr>pre = Eps, grp = Plus Digit,
      post = Seq (Star Space) (Seq (Lit (''d'' @ [CHR 0xED] @ ''a'')) (Opt (Chr CHR ''s'')))\<rparr>"

definition pat_plazo_meses :: pattern where
  \<comment> \<open>\<open>(\d+)\s*meses?\<close>\<close>
  "pat_plazo_meses =
     \<lparr>pre = Eps, grp = Plus Digit,
      post = Seq (Star Space) (Seq (Lit ''mese'') (Opt (Chr CHR ''s'')))\<rparr>"

definition pat_plazo_anos :: pattern where
  \<comment> \<open>\<open>(\d+)\s*a\xf1os?\<close>\<close>
  "pat_plazo_anos =
     \<lparr>pre = Eps, grp = Plus Digit,
      post = Seq (Star Space) (Seq (Lit (''a'' @ [CHR 0xF1] @ ''o'')) (Opt (Chr CHR ''s'')))\<rparr>"

definition pat_monto_soles :: pattern where
  \<comment> \<open>\<open>S/\.?\s*(\d+(?:,\d{3})*(?:\.\d{2})?)\<close>\<close>
  "pat_monto_soles =
     \<lparr>pre = Seq (Lit ''S/'') (Seq (Opt (Chr CHR ''.'')) (Star Space)),
      grp = amount, post = Eps\<rparr>"

definition pat_monto_dolares :: pattern where
  \<comment> \<open>\<open>\$\s*(\d+(?:,\d{3})*(?:\.\d{2})?)\<close>\<close>
  "pat_monto_dolares = \<lparr>pre = Seq (Chr CHR ''$'') (Star Space), grp = amount, post = Eps\<rparr>"

definition pat_porcentaje :: pattern where
  \<comment> \<open>\<open>(\d+(?:\.\d+)?)\s*%\<close>\<close>
  "pat_porcentaje =
     \<lparr>pre = Eps,
      grp = Seq (Plus Digit) (Opt (Seq (Chr CHR ''.'') (Plus Digit))),
      post = Seq (Star Space) (Chr CHR ''%'')\<rparr>"

definition pat_obligacion :: pattern where
  \<comment> \<open>\<open>(debe|deber\xe1|obligatorio|requerido|necesario|imperativo)\<close>\<close>
  "pat_obligacion =
     \<lparr>pre = Eps,
      grp = Alts [''debe'', ''deber'' @ [CHR 0xE1], ''obligatorio'', ''requerido'',
                  ''necesario'', ''imperativo''],
      post = Eps\<rparr>"

definition pat_prohibicion :: pattern where
  \<comment> \<open>\<open>(no debe|no deber\xe1|prohibido|vedado|impedido)\<close>\<close>
  "pat_prohibicion =
     \<lparr>pre = Eps,
      grp = Alts [''no debe'', ''no deber'' @ [CHR 0xE1], ''prohibido'', ''vedado'',
                  ''impedido''],
      post = Eps\<rparr>"

definition pat_opcion :: pattern where
  \<comment> \<open>\<open>(puede|podr\xe1|opcional|facultativo|discrecional)\<close>\<close>
  "pat_opcion =
     \<lparr>pre = Eps,
      grp = Alts [''puede'', ''podr'' @ [CHR 0xE1], ''opcional'', ''facultativo'',
                  ''discrecional''],
      post = Eps\<rparr>"

definition pat_autoriza :: pattern where
  \<comment> \<open>\<open>(autoriza|aprueba|permite|habilita)\<close>\<close>
  "pat_autoriza =
     \<lparr>pre = Eps, grp = Alts [''autoriza'', ''aprueba'', ''permite'', ''habilita''],
      post = Eps\<rparr>"

definition pat_deniega :: pattern where
  \<comment> \<open>\<open>(deniega|rechaza|impide|proh\xedbe)\<close>\<close>
  "pat_deniega =
     \<lparr>pre = Eps,
      grp = Alts [''deniega'', ''rechaza'', ''impide'', ''proh'' @ [CHR 0xED] @ ''be''],
      post = Eps\<rparr>"

definition contradiction_patterns :: "(string \<times> pattern) list" where
  "contradiction_patterns =
   [(''plazo_dias'', pat_plazo_dias),
    (''plazo_meses'', pat_plazo_meses),
    (plazo_anos, pat_plazo_anos),
    (''monto_soles'', pat_monto_soles),
    (''monto_dolares'', pat_monto_dolares),
    (''porcentaje'', pat_porcentaje),
    (''obligacion'', pat_obligacion),
    (''prohibicion'', pat_prohibicion),
    (''opcion'', pat_opcion),
    (''autoriza'', pat_autoriza),
    (''deniega'', pat_deniega)]"

definition severity_weights :: "(string \<times> string) list" where
  "severity_weights =
   [(''plazo_dias'', ''high''),
    (''plazo_meses'', ''high''),
    (plazo_anos, ''high''),
    (''monto_soles'', ''high''),
    (''monto_dolares'', ''high''),
    (''porcentaje'', ''medium''),
    (''obligacion'', ''critical''),
    (''prohibicion'', ''critical''),
    (''opcion'', ''medium''),
    (''autoriza'', ''high''),
    (''deniega'', ''critical'')]"

record fact =
  fvalue :: string
  fposition :: nat
  fcontext :: string

definition slice :: "nat \<Rightarrow> nat \<Rightarrow> 'a list \<Rightarrow> 'a list" where
  \<comment> \<open>\<open>xs[i:j]\<close> for \<open>0 \<le> i\<close> and \<open>0 \<le> j\<close>\<close>
  "slice i j xs = take (j - i) (drop i xs)"

definition match_context :: "string \<Rightarrow> rematch \<Rightarrow> string" where
  \<comment> \<open>50 characters before and after the match, newlines replaced, stripped\<close>
  "match_context content m =
     (let start = mstart m - 50;
          end' = min (length content) (mend m + 50)
      in strip (replace_char CHR 0x0A '' '' (slice start end' content)))"

definition extract_data :: "string \<Rightarrow> (string \<times> fact list) list" where
  "extract_data content =
     concat (map (\<lambda>(pattern_type, pattern).
        (let vals = map (\<lambda>m. \<lparr>fvalue = group1 m, fposition = mstart m,
                                fcontext = match_context content m\<rparr>)
                      (finditer True pattern content)
         in if vals \<noteq> [] then [(pattern_type, vals)] else []))
       contradiction_patterns)"

definition opposites :: "(string \<times> string list) list" where
  "opposites =
   [(''debe'', [''no debe'', ''puede'']),
    (''obligatorio'', [''opcional'', ''prohibido'']),
    (''requerido'', [''opcional''])]"

definition values_conflict ::
  "(string \<Rightarrow> rat option) \<Rightarrow> string \<Rightarrow> string \<Rightarrow> string \<Rightarrow> string \<Rightarrow> bool" where
  \<comment> \<open>The first argument is the builtin \<open>float\<close>; \<open>None\<close> is the exception that the
      \<open>try\<close> turns into \<open>False\<close>.\<close>
  "values_conflict float target_val rector_val pattern_type sensitivity =
     (if pattern_type \<in> set [''plazo_dias'', ''plazo_meses'', plazo_anos, ''porcentaje'']
      then (case float target_val of
              None \<Rightarrow> False
            | Some t \<Rightarrow>
               (case float rector_val of
                  None \<Rightarrow> False
                | Some r \<Rightarrow>
                    if sensitivity = ''strict'' then t \<noteq> r
                    else if sensitivity = ''moderate'' then \<bar>t - r\<bar> > r * (1 / 10)
                    else \<bar>t - r\<bar> > r * (2 / 10)))
      else if pattern_type \<in> set [''monto_soles'', ''monto_dolares'']
      then (case float (replace_char CHR '','' [] target_val) of
              None \<Rightarrow> False
            | Some t \<Rightarrow>
               (case float (replace_char CHR '','' [] rector_val) of
                  None \<Rightarrow> False
                | Some r \<Rightarrow>
                    if sensitivity = ''strict'' then t \<noteq> r
                    else \<bar>t - r\<bar> > r * (5 / 100)))
      else if pattern_type \<in> set [''obligacion'', ''prohibicion'', ''opcion'']
      then list_ex (\<lambda>(key, vals).
              contains key (lower target_val)
              \<and> list_ex (\<lambda>opp. contains opp (lower rector_val)) vals) opposites
      else False)"

record conflict =
  target :: string
  rector :: string
  conflict_context_target :: string
  conflict_context_rector :: string

definition compare_values ::
  "(string \<Rightarrow> rat option) \<Rightarrow> fact list \<Rightarrow> fact list \<Rightarrow> string \<Rightarrow> string \<Rightarrow> conflict list" where
  "compare_values float target_values rector_values pattern_type sensitivity =
     concat (map (\<lambda>target_val.
        concat (map (\<lambda>rector_val.
           if values_conflict float (fvalue target_val) (fvalue rector_val) pattern_type sensitivity
           then [\<lparr>target = fvalue target_val, rector = fvalue rector_val,
                  conflict_context_target = fcontext target_val,
                  conflict_context_rector = fcontext rector_val\<rparr>]
           else [])
         rector_values))
       target_values)"

definition calculate_severity :: "string \<Rightarrow> int \<Rightarrow> int \<Rightarrow> string \<Rightarrow> string" where
  "calculate_severity pattern_type target_level rector_level sensitivity =
     (let base_severity = (case map_of severity_weights pattern_type of
                             None \<Rightarrow> ''medium'' | Some w \<Rightarrow> w);
          level_diff = target_level - rector_level;
          base_severity = (if level_diff > 2 \<and> base_severity = ''medium''
                           then ''high'' else base_severity);
          base_severity = (if base_severity = ''high'' \<and> sensitivity = ''strict''
                           then ''critical'' else base_severity)
      in base_severity)"

definition generate_description :: "string \<Rightarrow> string \<Rightarrow> string \<Rightarrow> string \<Rightarrow> string" where
  "generate_description pattern_type target_val rector_val rector_doc =
     (let descriptions =
        [(''plazo_dias'', ''El documento establece '' @ target_val @ '' d'' @ [CHR 0xED]
             @ ''as, pero '' @ rector_doc @ '' requiere '' @ rector_val @ '' d''
             @ [CHR 0xED] @ ''as''),
         (''plazo_meses'', ''El documento indica '' @ target_val @ '' meses, pero ''
             @ rector_doc @ '' establece '' @ rector_val @ '' meses''),
         (''monto_soles'', ''El monto de S/ '' @ target_val @ '' difiere del monto en ''
             @ rector_doc @ '': S/ '' @ rector_val),
         (''monto_dolares'', ''El monto de $ '' @ target_val @ '' difiere del monto en ''
             @ rector_doc @ '': $ '' @ rector_val),
         (''porcentaje'', ''El porcentaje de '' @ target_val @ ''% difiere del establecido en ''
             @ rector_doc @ '': '' @ rector_val @ ''%''),
         (''obligacion'', ''Posible conflicto de obligaciones con '' @ rector_doc)]
      in case map_of descriptions pattern_type of
           Some d \<Rightarrow> d
         | None \<Rightarrow> ''Diferencia detectada: '' @ [CHR 0x27] @ target_val @ [CHR 0x27] @ '' vs ''
                    @ [CHR 0x27] @ rector_val @ [CHR 0x27] @ '' en '' @ rector_doc)"

record metadata =
  doc_id :: "string option"
  nivel_jerarquico :: "int option"

record contradiction =
  ctype :: string
  severity :: string
  target_value :: string
  rector_value :: string
  rector_doc :: string
  rector_level :: int
  context_target :: string
  context_rector :: string
  description :: string

definition get_or :: "'a option \<Rightarrow> 'a \<Rightarrow> 'a" where
  \<comment> \<open>\<open>d.get(key, default)\<close> on a key that is absent (\<open>None\<close>) or present\<close>
  "get_or v d = (case v of None \<Rightarrow> d | Some x \<Rightarrow> x)"

definition make_contradiction ::
  "string \<Rightarrow> metadata \<Rightarrow> metadata \<Rightarrow> string \<Rightarrow> conflict \<Rightarrow> contradiction" where
  "make_contradiction pattern_type target_metadata rector_metadata sensitivity c =
     \<lparr>ctype = pattern_type,
      severity = calculate_severity pattern_type
                   (get_or (nivel_jerarquico target_metadata) 999)
                   (get_or (nivel_jerarquico rector_metadata) 1)
                   sensitivity,
      target_value = target c,
      rector_value = rector c,
      rector_doc = get_or (doc_id rector_metadata) ''Desconocido'',
      rector_level = get_or (nivel_jerarquico rector_metadata) 1,
      context_target = conflict_context_target c,
      context_rector = conflict_context_rector c,
      description = generate_description pattern_type (target c) (rector c)
                      (get_or (doc_id rector_metadata) ''Rector'')\<rparr>"

type_synonym findings = "contradiction list \<times> contradiction list"

definition report :: "findings \<Rightarrow> contradiction \<Rightarrow> findings" where
  \<comment> \<open>the body of the innermost loop: the pair is (contradictions, warnings)\<close>
  "report acc c =
     (if severity c \<in> set [''critical'', ''high'']
      then (fst acc @ [c], snd acc)
      else (fst acc, snd acc @ [c]))"

definition check_pattern ::
  "(string \<Rightarrow> rat option) \<Rightarrow> metadata \<Rightarrow> (string \<times> fact list) list \<Rightarrow> metadata \<Rightarrow> string
     \<Rightarrow> string \<times> fact list \<Rightarrow> findings \<Rightarrow> findings" where
  \<comment> \<open>one round of the loop over \<open>target_data.items()\<close>\<close>
  "check_pattern float target_metadata rector_data rector_metadata sensitivity entry acc =
     (case map_of rector_data (fst entry) of
        None \<Rightarrow> acc
      | Some rector_values \<Rightarrow>
          foldl report acc
            (map (make_contradiction (fst entry) target_metadata rector_metadata sensitivity)
               (compare_values float (snd entry) rector_values (fst entry) sensitivity)))"

definition check_rector ::
  "(string \<Rightarrow> rat option) \<Rightarrow> (string \<times> fact list) list \<Rightarrow> metadata \<Rightarrow> string
     \<Rightarrow> string \<times> metadata \<Rightarrow> findings \<Rightarrow> findings" where
  \<comment> \<open>one round of the loop over \<open>rector_contents\<close>\<close>
  "check_rector float target_data target_metadata sensitivity rc acc =
     (let rector_data = extract_data (fst rc)
      in fold (check_pattern float target_metadata rector_data (snd rc) sensitivity)
           target_data acc)"

definition penalty_of :: "contradiction list \<Rightarrow> rat" where
  "penalty_of contradictions =
     foldl (\<lambda>penalty c.
        if severity c = ''critical'' then penalty + 2 / 10
        else if severity c = ''high'' then penalty + 1 / 10
        else penalty + 5 / 100) 0 contradictions"

definition generate_recommendation :: "contradiction list \<Rightarrow> rat \<Rightarrow> nat" where
  \<comment> \<open>the recommendation tier: 0 compliant, 1 some inconsistencies, 2 important
      contradictions, 3 must be rewritten\<close>
  "generate_recommendation contradictions score =
     (if score \<ge> 9 / 10 then 0 else if score \<ge> 7 / 10 then 1
      else if score \<ge> 5 / 10 then 2 else 3)"

record analysis =
  success :: bool
  contradictions_found :: nat
  warnings_found :: nat
  contradictions :: "contradiction list"
  warnings :: "contradiction list"
  compliance_score :: rat
  critical_issues :: nat
  high_issues :: nat
  medium_issues :: nat
  total_rectores_checked :: nat
  recommendation :: nat

definition detect_contradictions ::
  "(string \<Rightarrow> rat option) \<Rightarrow> string \<Rightarrow> metadata \<Rightarrow> (string \<times> metadata) list \<Rightarrow> string
     \<Rightarrow> analysis" where
  "detect_contradictions float target_content target_metadata rector_contents sensitivity =
     (let target_data = extract_data target_content;
          found = fold (check_rector float target_data target_metadata sensitivity)
                    rector_contents ([], []);
          total_checks = length target_data * length rector_contents;
          score = (if total_checks > 0
                   then max 0 (1 - penalty_of (fst found) / of_nat (max total_checks 1))
                   else 1)
      in \<lparr>success = True,
          contradictions_found = length (fst found),
          warnings_found = length (snd found),
          contradictions = fst found,
          warnings = snd found,
          compliance_score = round3 score,
          critical_issues = length (filter (\<lambda>c. severity c = ''critical'') (fst found)),
          high_issues = length (filter (\<lambda>c. severity c = ''high'') (fst found)),
          medium_issues = length (filter (\<lambda>c. severity c = ''medium'') (fst found)),
          total_rectores_checked = length rector_contents,
          recommendation = generate_recommendation (fst found) score\<rparr>)"


section \<open>The statements of the specification\<close>

definition is_contradiction :: "contradiction \<Rightarrow> bool" where
  "is_contradiction c = (severity c = ''critical'' \<or> severity c = ''high'')"

definition pattern_findings ::
  "(string \<Rightarrow> rat option) \<Rightarrow> metadata \<Rightarrow> (string \<times> fact list) list \<Rightarrow> metadata \<Rightarrow> string
     \<Rightarrow> string \<times> fact list \<Rightarrow> contradiction list" where
  \<comment> \<open>the classified conflicts of one fact type against one governing document\<close>
  "pattern_findings float target_metadata rector_data rector_metadata sensitivity entry =
     (case map_of rector_data (fst entry) of
        None \<Rightarrow> []
      | Some rector_values \<Rightarrow>
          map (make_contradiction (fst entry) target_metadata rector_metadata sensitivity)
            (compare_values float (snd entry) rector_values (fst entry) sensitivity))"

definition all_findings ::
  "(string \<Rightarrow> rat option) \<Rightarrow> string \<Rightarrow> metadata \<Rightarrow> (string \<times> metadata) list \<Rightarrow> string
     \<Rightarrow> contradiction list" where
  \<comment> \<open>every classified conflict of an analysis, in the order the loops meet them\<close>
  "all_findings float target_content target_metadata rector_contents sensitivity =
     concat (map (\<lambda>rc.
        concat (map (pattern_findings float target_metadata (extract_data (fst rc)) (snd rc)
                       sensitivity)
                  (extract_data target_content)))
       rector_contents)"








definition all_matches :: "string \<Rightarrow> (string \<times> rematch list) list" where
  \<comment> \<open>the matches of every pattern of the table, in table order\<close>
  "all_matches content =
     map (\<lambda>(pattern_type, pattern). (pattern_type, finditer True pattern content))
       contradiction_patterns"

definition target_example :: string where
  \<comment> \<open>the target text of the analyzer's own demonstration, which the worked example of the
      specification abbreviates\<close>
  "target_example = [CHR 0x0A]
     @ ''    La unidad otorga un plazo de 30 d'' @ [CHR 0xED] @ ''as para la respuesta.''
     @ [CHR 0x0A]
     @ ''    El presupuesto m'' @ [CHR 0xE1] @ ''ximo autorizado es de $5,000 d'' @ [CHR 0xF3]
     @ ''lares.'' @ [CHR 0x0A]
     @ ''    Los usuarios pueden opcionalmente usar autenticaci'' @ [CHR 0xF3]
     @ ''n multifactor.'' @ [CHR 0x0A]
     @ ''    ''"

definition rector_example :: string where
  \<comment> \<open>the governing text of the same demonstration\<close>
  "rector_example = [CHR 0x0A]
     @ ''    Todas las entidades deben otorgar un plazo m'' @ [CHR 0xED] @ ''nimo de 45 d''
     @ [CHR 0xED] @ ''as.'' @ [CHR 0x0A]
     @ ''    El presupuesto autorizado no debe exceder $10,000 d'' @ [CHR 0xF3] @ ''lares.''
     @ [CHR 0x0A]
     @ ''    La autenticaci'' @ [CHR 0xF3]
     @ ''n multifactor es obligatoria para todos los usuarios.'' @ [CHR 0x0A]
     @ ''    ''"

definition target_meta :: metadata where
  "target_meta = \<lparr>doc_id = Some ''DIR_TEST_001'', nivel_jerarquico = Some 4\<rparr>"

definition rector_meta :: metadata where
  "rector_meta = \<lparr>doc_id = Some ''LEY_RECTOR_001'', nivel_jerarquico = Some 1\<rparr>"

definition example_analysis :: analysis where
  "example_analysis =
     detect_contradictions py_float target_example target_meta
       [(rector_example, rector_meta)] ''moderate''"




section \<open>Properties of the analyzer\<close>

lemma plazo_anos_neq [simp]:
  "plazo_anos \<noteq> ''plazo_dias''" "plazo_anos \<noteq> ''plazo_meses''"
  "plazo_anos \<noteq> ''porcentaje''" "plazo_anos \<noteq> ''monto_soles''"
  "plazo_anos \<noteq> ''monto_dolares''" "plazo_anos \<noteq> ''obligacion''"
  "plazo_anos \<noteq> ''prohibicion''" "plazo_anos \<noteq> ''opcion''"
  "plazo_anos \<noteq> ''autoriza''" "plazo_anos \<noteq> ''deniega''"
  by (simp_all add: plazo_anos_def)

lemma py_float_30: "py_float ''30'' = Some 30"
  by code_simp

lemma py_float_45: "py_float ''45'' = Some 45"
  by code_simp


lemma py_float_5000: "py_float (replace_char CHR '','' [] ''5,000'') = Some 5000"
  by code_simp

lemma py_float_10000: "py_float (replace_char CHR '','' [] ''10,000'') = Some 10000"
  by code_simp








lemma replace_comma_filter:
  "replace_char CHR '','' [] s = filter (\<lambda>c. c \<noteq> CHR '','') s"
  by (induction s) (auto simp: replace_char_def)

subsection \<open>The two result lists\<close>

lemma foldl_report:
  "foldl report acc xs =
     (fst acc @ filter is_contradiction xs, snd acc @ filter (\<lambda>c. \<not> is_contradiction c) xs)"
  by (induction xs arbitrary: acc) (auto simp: report_def is_contradiction_def)

lemma check_pattern_findings:
  "check_pattern float tm rd rm sens entry acc =
     (fst acc @ filter is_contradiction (pattern_findings float tm rd rm sens entry),
      snd acc @ filter (\<lambda>c. \<not> is_contradiction c)
                  (pattern_findings float tm rd rm sens entry))"
  by (simp add: check_pattern_def pattern_findings_def foldl_report split: option.splits)

lemma fold_check_pattern:
  "fold (check_pattern float tm rd rm sens) entries acc =
     (fst acc @ filter is_contradiction
                  (concat (map (pattern_findings float tm rd rm sens) entries)),
      snd acc @ filter (\<lambda>c. \<not> is_contradiction c)
                  (concat (map (pattern_findings float tm rd rm sens) entries)))"
  by (induction entries arbitrary: acc) (simp_all add: check_pattern_findings)

lemma fold_check_rector:
  "fold (check_rector float (extract_data tc) tm sens) rcs acc =
     (fst acc @ filter is_contradiction (all_findings float tc tm rcs sens),
      snd acc @ filter (\<lambda>c. \<not> is_contradiction c) (all_findings float tc tm rcs sens))"
  by (induction rcs arbitrary: acc)
     (simp_all add: all_findings_def check_rector_def fold_check_pattern Let_def)

lemma detect_contradictions_lists:
  "contradictions (detect_contradictions float tc tm rcs sens)
     = filter is_contradiction (all_findings float tc tm rcs sens)"
  "warnings (detect_contradictions float tc tm rcs sens)
     = filter (\<lambda>c. \<not> is_contradiction c) (all_findings float tc tm rcs sens)"
  by (simp_all add: detect_contradictions_def Let_def fold_check_rector)

lemma detect_contradictions_score:
  "compliance_score (detect_contradictions float tc tm rcs sens)
     = round3 (if length (extract_data tc) * length rcs > 0
               then max 0 (1 - penalty_of (contradictions
                                 (detect_contradictions float tc tm rcs sens))
                               / of_nat (max (length (extract_data tc) * length rcs) 1))
               else 1)"
  unfolding detect_contradictions_def Let_def by simp

subsection \<open>Severity\<close>




subsection \<open>Sensitivity tiers\<close>






subsection \<open>Authorization and denial markers\<close>

lemma compare_values_never:
  "(\<And>t r. \<not> values_conflict float t r pattern_type sens) \<Longrightarrow>
     compare_values float tvs rvs pattern_type sens = []"
  by (simp add: compare_values_def)

lemma values_conflict_autoriza:
  "\<not> values_conflict float t r ''autoriza'' sens"
  "\<not> values_conflict float t r ''deniega'' sens"
  by (simp_all add: values_conflict_def plazo_anos_def)

lemma ctype_all_findings:
  "c \<in> set (all_findings float tc tm rcs sens) \<Longrightarrow>
     \<exists>tvs rvs. compare_values float tvs rvs (ctype c) sens \<noteq> []"
proof -
  assume "c \<in> set (all_findings float tc tm rcs sens)"
  then obtain tvs rvs x where "x \<in> set (compare_values float tvs rvs (ctype c) sens)"
    by (auto simp: all_findings_def pattern_findings_def make_contradiction_def
           split: option.splits)
  then show ?thesis by (metis empty_iff list.set(1))
qed

text \<open>
  C10. For every pair of values and every sensitivity, the conflict test of the
  authorization-marker and denial-marker fact types answers no conflict, although the
  severity table gives them high and critical; hence no analysis reports an item of these
  two types, neither as a contradiction nor as a warning.
\<close>

theorem authorization_denial_never_conflict:
  "\<not> values_conflict float target_val rector_val ''autoriza'' sensitivity
   \<and> \<not> values_conflict float target_val rector_val ''deniega'' sensitivity
   \<and> map_of severity_weights ''autoriza'' = Some ''high''
   \<and> map_of severity_weights ''deniega'' = Some ''critical''
   \<and> filter (\<lambda>c. ctype c = ''autoriza'' \<or> ctype c = ''deniega'')
        (contradictions (detect_contradictions float tc tm rcs sens)
         @ warnings (detect_contradictions float tc tm rcs sens)) = []"
proof -
  have "ctype c \<noteq> ''autoriza'' \<and> ctype c \<noteq> ''deniega''"
    if "c \<in> set (all_findings float tc tm rcs sens)" for c
    using ctype_all_findings [OF that]
    by (auto simp: compare_values_never values_conflict_autoriza)
  then have "filter (\<lambda>c. ctype c = ''autoriza'' \<or> ctype c = ''deniega'')
        (contradictions (detect_contradictions float tc tm rcs sens)
         @ warnings (detect_contradictions float tc tm rcs sens)) = []"
    by (auto simp: detect_contradictions_lists filter_empty_conv)
  then show ?thesis
    by (simp add: values_conflict_autoriza severity_weights_def plazo_anos_def)
qed

subsection \<open>The compliance score\<close>





subsection \<open>Evaluating the character classes\<close>

text \<open>
  The character classes decided on the bits of the character, for evaluation.
\<close>

lemma is_digit_bits [code]:
  "is_digit (Char b0 b1 b2 b3 b4 b5 b6 b7) =
     (\<not> b7 \<and> \<not> b6 \<and> b5 \<and> b4 \<and> (\<not> b3 \<or> (\<not> b2 \<and> \<not> b1)))"
  by (cases b0; cases b1; cases b2; cases b3; cases b4; cases b5; cases b6; cases b7;
      simp add: is_digit_def)

lemma is_space_bits [code]:
  "is_space (Char b0 b1 b2 b3 b4 b5 b6 b7) =
     (if b7 then \<not> b6 \<and> \<not> b4 \<and> \<not> b3 \<and> \<not> b1 \<and> (b5 \<noteq> b2) \<and> (b2 = b0)
      else \<not> b6 \<and> (if b5 then \<not> b4 \<and> \<not> b3 \<and> \<not> b2 \<and> \<not> b1 \<and> \<not> b0
                      else b3 \<and> (if b4 then b2
                                  else (\<not> b2 \<and> (b1 \<or> b0)) \<or> (b2 \<and> \<not> b1))))"
  by (cases b0; cases b1; cases b2; cases b3; cases b4; cases b5; cases b6; cases b7;
      simp add: is_space_def)

lemma is_upper_bits [code]:
  "is_upper (Char b0 b1 b2 b3 b4 b5 b6 b7) =
     (b6 \<and> \<not> b5 \<and>
      (if b7 then \<not> (b0 \<and> b1 \<and> b2 \<and> b4)
       else (b0 \<or> b1 \<or> b2 \<or> b3 \<or> b4) \<and> \<not> (b4 \<and> b3 \<and> (b2 \<or> (b1 \<and> b0)))))"
  by (cases b0; cases b1; cases b2; cases b3; cases b4; cases b5; cases b6; cases b7;
      simp add: is_upper_def)

lemma lower_char_bits [code]:
  "lower_char (Char b0 b1 b2 b3 b4 b5 b6 b7) =
     Char b0 b1 b2 b3 b4 (b5 \<or> is_upper (Char b0 b1 b2 b3 b4 b5 b6 b7)) b6 b7"
  by (cases b0; cases b1; cases b2; cases b3; cases b4; cases b5; cases b6; cases b7;
      simp add: lower_char_def is_upper_def char_of_def bit_0)

subsection \<open>The worked example\<close>

lemma extract_data_matches:
  "extract_data content =
     concat (map (\<lambda>(pattern_type, ms).
        if ms = [] then []
        else [(pattern_type,
               map (\<lambda>m. \<lparr>fvalue = group1 m, fposition = mstart m,
                            fcontext = match_context content m\<rparr>) ms)])
       (all_matches content))"
  by (simp add: extract_data_def all_matches_def contradiction_patterns_def Let_def)

lemma all_matches_target:
  "all_matches target_example =
     [(''plazo_dias'', [\<lparr>group1 = ''30'', mstart = 34, mend = 41\<rparr>]),
      (''plazo_meses'', []),
      (plazo_anos, []),
      (''monto_soles'', []),
      (''monto_dolares'', [\<lparr>group1 = ''5,000'', mstart = 104, mend = 110\<rparr>]),
      (''porcentaje'', []),
      (''obligacion'', []),
      (''prohibicion'', []),
      (''opcion'', [\<lparr>group1 = ''puede'', mstart = 137, mend = 142\<rparr>,
                    \<lparr>group1 = ''opcional'', mstart = 144, mend = 152\<rparr>]),
      (''autoriza'', [\<lparr>group1 = ''autoriza'', mstart = 87, mend = 95\<rparr>]),
      (''deniega'', [])]"
  by code_simp

lemma all_matches_rector:
  "all_matches rector_example =
     [(''plazo_dias'', [\<lparr>group1 = ''45'', mstart = 58, mend = 65\<rparr>]),
      (''plazo_meses'', []),
      (plazo_anos, []),
      (''monto_soles'', []),
      (''monto_dolares'', [\<lparr>group1 = ''10,000'', mstart = 113, mend = 120\<rparr>]),
      (''porcentaje'', []),
      (''obligacion'', [\<lparr>group1 = ''debe'', mstart = 25, mend = 29\<rparr>,
                        \<lparr>group1 = ''debe'', mstart = 100, mend = 104\<rparr>]),
      (''prohibicion'', [\<lparr>group1 = ''no debe'', mstart = 97, mend = 104\<rparr>]),
      (''opcion'', []),
      (''autoriza'', [\<lparr>group1 = ''autoriza'', mstart = 86, mend = 94\<rparr>]),
      (''deniega'', [])]"
  by code_simp

lemma extract_data_target:
  "extract_data target_example =
     [(''plazo_dias'',
        [\<lparr>fvalue = ''30'', fposition = 34,
          fcontext = match_context target_example \<lparr>group1 = ''30'', mstart = 34, mend = 41\<rparr>\<rparr>]),
      (''monto_dolares'',
        [\<lparr>fvalue = ''5,000'', fposition = 104,
          fcontext = match_context target_example
                       \<lparr>group1 = ''5,000'', mstart = 104, mend = 110\<rparr>\<rparr>]),
      (''opcion'',
        [\<lparr>fvalue = ''puede'', fposition = 137,
          fcontext = match_context target_example
                       \<lparr>group1 = ''puede'', mstart = 137, mend = 142\<rparr>\<rparr>,
         \<lparr>fvalue = ''opcional'', fposition = 144,
          fcontext = match_context target_example
                       \<lparr>group1 = ''opcional'', mstart = 144, mend = 152\<rparr>\<rparr>]),
      (''autoriza'',
        [\<lparr>fvalue = ''autoriza'', fposition = 87,
          fcontext = match_context target_example
                       \<lparr>group1 = ''autoriza'', mstart = 87, mend = 95\<rparr>\<rparr>])]"
  by (simp add: extract_data_matches all_matches_target)

lemma extract_data_rector:
  "extract_data rector_example =
     [(''plazo_dias'',
        [\<lparr>fvalue = ''45'', fposition = 58,
          fcontext = match_context rector_example \<lparr>group1 = ''45'', mstart = 58, mend = 65\<rparr>\<rparr>]),
      (''monto_dolares'',
        [\<lparr>fvalue = ''10,000'', fposition = 113,
          fcontext = match_context rector_example
                       \<lparr>group1 = ''10,000'', mstart = 113, mend = 120\<rparr>\<rparr>]),
      (''obligacion'',
        [\<lparr>fvalue = ''debe'', fposition = 25,
          fcontext = match_context rector_example
                       \<lparr>group1 = ''debe'', mstart = 25, mend = 29\<rparr>\<rparr>,
         \<lparr>fvalue = ''debe'', fposition = 100,
          fcontext = match_context rector_example
                       \<lparr>group1 = ''debe'', mstart = 100, mend = 104\<rparr>\<rparr>]),
      (''prohibicion'',
        [\<lparr>fvalue = ''no debe'', fposition = 97,
          fcontext = match_context rector_example
                       \<lparr>group1 = ''no debe'', mstart = 97, mend = 104\<rparr>\<rparr>]),
      (''autoriza'',
        [\<lparr>fvalue = ''autoriza'', fposition = 86,
          fcontext = match_context rector_example
                       \<lparr>group1 = ''autoriza'', mstart = 86, mend = 94\<rparr>\<rparr>])]"
  by (simp add: extract_data_matches all_matches_rector)

lemma all_findings_example:
  "all_findings py_float target_example target_meta [(rector_example, rector_meta)] ''moderate''
     = [make_contradiction ''plazo_dias'' target_meta rector_meta ''moderate''
          \<lparr>target = ''30'', rector = ''45'',
           conflict_context_target =
             match_context target_example \<lparr>group1 = ''30'', mstart = 34, mend = 41\<rparr>,
           conflict_context_rector =
             match_context rector_example \<lparr>group1 = ''45'', mstart = 58, mend = 65\<rparr>\<rparr>,
        make_contradiction ''monto_dolares'' target_meta rector_meta ''moderate''
          \<lparr>target = ''5,000'', rector = ''10,000'',
           conflict_context_target =
             match_context target_example \<lparr>group1 = ''5,000'', mstart = 104, mend = 110\<rparr>,
           conflict_context_rector =
             match_context rector_example
               \<lparr>group1 = ''10,000'', mstart = 113, mend = 120\<rparr>\<rparr>]"
  by (simp add: all_findings_def pattern_findings_def extract_data_target extract_data_rector
        compare_values_def values_conflict_def plazo_anos_def
        py_float_30 py_float_45 py_float_5000 py_float_10000)

lemma example_severities:
  "calculate_severity ''plazo_dias'' 4 1 ''moderate'' = ''high''"
  "calculate_severity ''monto_dolares'' 4 1 ''moderate'' = ''high''"
  by (simp_all add: calculate_severity_def severity_weights_def)

lemma example_contradictions:
  "contradictions example_analysis
     = all_findings py_float target_example target_meta [(rector_example, rector_meta)]
         ''moderate''"
  "warnings example_analysis = []"
  unfolding example_analysis_def detect_contradictions_lists all_findings_example
  by (simp_all add: is_contradiction_def make_contradiction_def target_meta_def
        rector_meta_def get_or_def example_severities)

text \<open>
  C2, as stated, fails: on the texts of the worked example under moderate sensitivity no
  reported item, contradiction or warning, is of a modality type.
\<close>

theorem example_no_modality_conflict:
  "\<not> (\<exists>c \<in> set (contradictions example_analysis @ warnings example_analysis).
          ctype c = ''obligacion'' \<or> ctype c = ''prohibicion'' \<or> ctype c = ''opcion'')"
  unfolding example_contradictions all_findings_example
  by (simp add: make_contradiction_def)

text \<open>
  C2, as amended. On the texts of the worked example under moderate sensitivity the analysis
  reports exactly two contradictions, the day-period one (30 against 45) and the dollar one
  (5,000 against 10,000), both high, and no warning; the compliance score is 0.95, strictly
  less than 1.
\<close>

theorem example_result:
  "map (\<lambda>c. (ctype c, severity c, target_value c, rector_value c))
     (contradictions example_analysis)
     = [(''plazo_dias'', ''high'', ''30'', ''45''),
        (''monto_dolares'', ''high'', ''5,000'', ''10,000'')]
   \<and> warnings example_analysis = []
   \<and> compliance_score example_analysis = 95 / 100
   \<and> compliance_score example_analysis < 1"
proof -
  have c: "map (\<lambda>c. (ctype c, severity c, target_value c, rector_value c))
     (contradictions example_analysis)
     = [(''plazo_dias'', ''high'', ''30'', ''45''),
        (''monto_dolares'', ''high'', ''5,000'', ''10,000'')]"
    unfolding example_contradictions all_findings_example
    by (simp add: make_contradiction_def target_meta_def rector_meta_def get_or_def
          example_severities)
  have p: "penalty_of (contradictions example_analysis) = 2 / 10"
    unfolding example_contradictions all_findings_example penalty_of_def
    by (simp add: make_contradiction_def target_meta_def rector_meta_def get_or_def
          example_severities)
  have len: "length (extract_data target_example) = 4"
    by (simp add: extract_data_target)
  have "compliance_score example_analysis
          = round3 (if length (extract_data target_example)
                         * length [(rector_example, rector_meta)] > 0
                    then max 0 (1 - penalty_of (contradictions example_analysis)
                                    / of_nat (max (length (extract_data target_example)
                                         * length [(rector_example, rector_meta)]) 1))
                    else 1)"
    unfolding example_analysis_def by (rule detect_contradictions_score)
  also have "\<dots> = round3 (95 / 100)"
    unfolding p len by simp
  also have "\<dots> = 95 / 100"
    by (simp add: round3_def round_half_even_def)
  finally have s: "compliance_score example_analysis = 95 / 100" .
  from c s example_contradictions(2) show ?thesis by simp
qed

subsection \<open>A warning and the score\<close>











end
